theory Spec2Isabelle
  imports Main "HOL-Library.Word"
begin

section \<open>Python values, exceptions and results\<close>

text \<open>
  The exceptions the two modules raise or let through. \<open>Error\<close> stands for any other
  exception class that derives from \<open>Exception\<close> (a handler's or a sink's own failure, a
  transport failure); \<open>BaseExc\<close> for the ones that derive from \<open>BaseException\<close> only
  (\<open>KeyboardInterrupt\<close>, \<open>SystemExit\<close>, \<open>GeneratorExit\<close>), which \<open>except Exception\<close>
  does not catch.
\<close>

datatype py_exc =
    CancelledError
  | AssertionError
  | AttributeError
  | KeyError string
  | TypeError
  | ValueError
  | NotImplementedError
  | UnicodeDecodeError
  | BinasciiError
  | Error string
  | BaseExc string

fun is_Exception :: "py_exc \<Rightarrow> bool" where
  "is_Exception (BaseExc n) = False"
| "is_Exception e = True"

text \<open>
  A call either returns a value (\<open>Inr\<close>) or raises (\<open>Inl\<close>).

  The values that travel through the codecs and the envelopes. A \<open>str\<close> is represented by
  its UTF-8 encoding, \<open>bytes\<close> by the bytes themselves (a \<open>char\<close> is eight bits wide), and
  the two stay different values, as \<open>'a' == b'a'\<close> is false in Python. \<open>PyModel ns fs\<close> is an
  instance of a model class (\<open>ModelT\<close>) whose \<open>_options.namespace\<close> is \<open>ns\<close>; \<open>PyTopic n\<close>
  is the topic object of that name.
\<close>

datatype pyval =
    PyNone
  | PyBool bool
  | PyInt int
  | PyStr string
  | PyBytes string
  | PyList "pyval list"
  | PyDict "(string \<times> pyval) list"
  | PyModel string "(string \<times> pyval) list"
  | PyTopic string

subsection \<open>\<open>want_bytes\<close>, \<open>want_str\<close> (faust.utils.compat)\<close>





subsection \<open>Base64 (\<open>base64.b64encode\<close>, \<open>base64.b64decode\<close>)\<close>







section \<open>Codecs (faust/serializers/codecs.py)\<close>

text \<open>
  A codec class is its two methods \<open>_dumps\<close> and \<open>_loads\<close>; a codec is an instance of a
  class with the codecs chained below it (\<open>children\<close>) and its keyword arguments.
\<close>

record codec_class =
  cls_name :: string
  cls_dumps :: "pyval \<Rightarrow> py_exc + pyval"
  cls_loads :: "pyval \<Rightarrow> py_exc + pyval"

datatype codec =
  Codec (cls: codec_class) (children: "codec list") (kwargs: "(string \<times> pyval) list")

text \<open>The base class: both methods raise \<open>NotImplementedError\<close>.\<close>

definition Codec_class :: codec_class where
  "Codec_class =
     \<lparr>cls_name = ''Codec'',
      cls_dumps = (\<lambda>s. Inl NotImplementedError),
      cls_loads = (\<lambda>s. Inl NotImplementedError)\<rparr>"

text \<open>\<open>self.nodes = (self,) + self.children\<close>\<close>

definition nodes :: "codec \<Rightarrow> codec list" where
  "nodes c = c # children c"

text \<open>\<open>functools.reduce(f, xs, acc)\<close>, where \<open>f\<close> may raise.\<close>

fun reduce :: "('a \<Rightarrow> 'b \<Rightarrow> py_exc + 'a) \<Rightarrow> 'b list \<Rightarrow> 'a \<Rightarrow> py_exc + 'a" where
  "reduce f [] acc = Inr acc"
| "reduce f (x # xs) acc = (case f acc x of Inl e \<Rightarrow> Inl e | Inr acc' \<Rightarrow> reduce f xs acc')"

text \<open>\<open>Codec.dumps\<close> and \<open>Codec.loads\<close>\<close>

definition Codec_dumps :: "codec \<Rightarrow> pyval \<Rightarrow> py_exc + pyval" where
  "Codec_dumps self obj = reduce (\<lambda>obj e. cls_dumps (cls e) obj) (nodes self) obj"

definition Codec_loads :: "codec \<Rightarrow> pyval \<Rightarrow> py_exc + pyval" where
  "Codec_loads self s = reduce (\<lambda>s d. cls_loads (cls d) s) (rev (nodes self)) s"

text \<open>\<open>Codec.clone\<close> and \<open>Codec.__or__\<close> (the other operand is a codec)\<close>

definition clone :: "codec \<Rightarrow> codec list \<Rightarrow> codec" where
  "clone self cs = Codec (cls self) (children self @ cs) (kwargs self)"

definition codec_or :: "codec \<Rightarrow> codec \<Rightarrow> codec" where
  "codec_or self other = clone self [other]"

text \<open>
  The serializers of the standard library and of \<open>faust.utils\<close> that the classes \<open>json\<close>
  and \<open>raw_pickle\<close> call, and the plugin discovery, are not part of these sources: they are
  parameters.
\<close>

record pylib =
  json_dumps :: "pyval \<Rightarrow> py_exc + string"
  json_loads :: "string \<Rightarrow> py_exc + pyval"
  pickle_dumps :: "pyval \<Rightarrow> py_exc + string"
  pickle_loads :: "string \<Rightarrow> py_exc + pyval"
  load_extension_classes :: "string \<Rightarrow> (string \<times> codec_class) list"








text \<open>
  The module's state: the registry \<open>codecs\<close> and \<open>_extensions_finalized\<close>.
\<close>

record codecs_module =
  codecs :: "string \<rightharpoonup> codec"
  extensions_finalized :: "string \<rightharpoonup> bool"


definition register :: "string \<Rightarrow> codec \<Rightarrow> codecs_module \<Rightarrow> codecs_module" where
  "register name codec m = m\<lparr>codecs := (codecs m)(name \<mapsto> codec)\<rparr>"

text \<open>
  \<open>_maybe_load_extension_classes\<close>: every extension class is instantiated and stored
  under its name. Nothing ever writes \<open>_extensions_finalized\<close>.
\<close>

fun update_all :: "(string \<times> codec_class) list \<Rightarrow> (string \<rightharpoonup> codec) \<Rightarrow> (string \<rightharpoonup> codec)" where
  "update_all [] reg = reg"
| "update_all ((name, c) # rest) reg = update_all rest (reg(name \<mapsto> Codec c [] []))"

definition maybe_load_extension_classes :: "pylib \<Rightarrow> string \<Rightarrow> codecs_module \<Rightarrow> codecs_module" where
  "maybe_load_extension_classes lib namespace m =
     (case extensions_finalized m namespace of
        None \<Rightarrow> m\<lparr>codecs := update_all (load_extension_classes lib namespace) (codecs m)\<rparr>
      | Some _ \<Rightarrow> m)"

text \<open>
  A \<open>CodecArg\<close> is a name or a codec. \<open>_reduce_node(a, b) = codecs.get(a, a) | codecs[b]\<close>:
  the left operand is looked up and kept as it is when the registry does not have it
  (a codec is never a key: the keys are names), the right one must be registered; a name
  left on the left-hand side has no \<open>|\<close>.
\<close>

datatype codec_arg = Name string | Obj codec

definition reduce_node :: "(string \<rightharpoonup> codec) \<Rightarrow> codec_arg \<Rightarrow> string \<Rightarrow> py_exc + codec_arg" where
  "reduce_node reg a b =
     (let lhs = (case a of
                   Name n \<Rightarrow> (case reg n of Some c \<Rightarrow> Obj c | None \<Rightarrow> Name n)
                 | Obj c \<Rightarrow> Obj c)
      in case reg b of
           None \<Rightarrow> Inl (KeyError b)
         | Some cb \<Rightarrow>
             (case lhs of
                Obj ca \<Rightarrow> Inr (Obj (codec_or ca cb))
              | Name n \<Rightarrow> Inl TypeError))"

text \<open>\<open>str.split(sep)\<close> for a separator of one character.\<close>

fun split :: "char \<Rightarrow> string \<Rightarrow> string list" where
  "split sep [] = [[]]"
| "split sep (c # cs) =
     (if c = sep then [] # split sep cs
      else (case split sep cs of
              w # ws \<Rightarrow> (c # w) # ws
            | [] \<Rightarrow> [[c]]))"

definition get_codec :: "pylib \<Rightarrow> codec_arg \<Rightarrow> codecs_module \<Rightarrow> (py_exc + codec) \<times> codecs_module" where
  "get_codec lib name_or_codec m0 =
     (let m = maybe_load_extension_classes lib ''faust.codecs'' m0
      in case name_or_codec of
           Name name \<Rightarrow>
             (if CHR ''|'' \<in> set name then
                (case split (CHR ''|'') name of
                   [] \<Rightarrow> (Inl TypeError, m)
                 | n # ns \<Rightarrow>
                     (case reduce (\<lambda>a b. reduce_node (codecs m) a b) ns (Name n) of
                        Inl e \<Rightarrow> (Inl e, m)
                      | Inr (Obj c) \<Rightarrow> (Inr c, m)
                      | Inr (Name n') \<Rightarrow> (Inl TypeError, m)))
              else
                (case codecs m name of
                   None \<Rightarrow> (Inl (KeyError name), m)
                 | Some c \<Rightarrow> (Inr c, m)))
         | Obj c \<Rightarrow> (Inr c, m))"

text \<open>
  The module-level \<open>dumps\<close> and \<open>loads\<close>: \<open>... if codec else obj\<close>. \<open>None\<close> and the empty
  name are false, a codec object is true.
\<close>

definition truthy :: "codec_arg \<Rightarrow> bool" where
  "truthy codec = (case codec of Name n \<Rightarrow> n \<noteq> [] | Obj c \<Rightarrow> True)"

definition dumps :: "pylib \<Rightarrow> codec_arg option \<Rightarrow> pyval \<Rightarrow> codecs_module \<Rightarrow> (py_exc + pyval) \<times> codecs_module" where
  "dumps lib codec obj m =
     (case codec of
        None \<Rightarrow> (Inr obj, m)
      | Some c \<Rightarrow>
          if truthy c then
            (case get_codec lib c m of
               (Inl e, m') \<Rightarrow> (Inl e, m')
             | (Inr cd, m') \<Rightarrow> (Codec_dumps cd obj, m'))
          else (Inr obj, m))"

definition loads :: "pylib \<Rightarrow> codec_arg option \<Rightarrow> pyval \<Rightarrow> codecs_module \<Rightarrow> (py_exc + pyval) \<times> codecs_module" where
  "loads lib codec s m =
     (case codec of
        None \<Rightarrow> (Inr s, m)
      | Some c \<Rightarrow>
          if truthy c then
            (case get_codec lib c m of
               (Inl e, m') \<Rightarrow> (Inl e, m')
             | (Inr cd, m') \<Rightarrow> (Codec_loads cd s, m'))
          else (Inr s, m))"

section \<open>Actors (faust/actors.py)\<close>

subsection \<open>Awaiting, and the world outside the actor\<close>

text \<open>
  An awaited computation changes the state and then returns (\<open>Inr\<close>) or raises (\<open>Inl\<close>);
  \<open>None\<close> is a computation that never completes.
\<close>

type_synonym ('a, 's) aw = "'s \<Rightarrow> ((py_exc + 'a) \<times> 's) option"

text \<open>
  The envelopes. \<open>reply_to\<close> is a topic name or a topic; \<open>namespace\<close> may be \<open>None\<close> in a
  request. (The fields are \<open>namespace\<close>, \<open>value\<close>, \<open>reply_to\<close>, \<open>correlation_id\<close> in the
  source; the two classes share three of the names.)
\<close>

datatype destination = TopicName string | Topic string

record ReqRepRequest =
  req_namespace :: "string option"
  req_value :: pyval
  req_reply_to :: "destination option"
  req_correlation_id :: string

record ReqRepResponse =
  resp_namespace :: string
  resp_value :: pyval
  resp_correlation_id :: string

datatype payload = Value pyval | Request ReqRepRequest | Response ReqRepResponse

text \<open>The arguments of one \<open>topic.send\<close> call, and of one \<open>app.send\<close> call.\<close>

record send_call =
  sc_key :: pyval
  sc_value :: payload
  sc_partition :: "int option"
  sc_key_serializer :: "codec_arg option"
  sc_value_serializer :: "codec_arg option"
  sc_wait :: bool

record app_send_call =
  as_channel :: "destination option"
  as_key :: pyval
  as_value :: payload

text \<open>
  The world records what the actor does to its collaborators, in order: the calls of the
  error hook (actor, error), the calls of the sinks (sink, value), the messages handed to
  the topic and to the application, the sources opened over a topic. Objects are told
  apart by an identity taken from \<open>next_id\<close>. \<open>uuids\<close> is the supply \<open>uuid4()\<close> draws from.
  \<open>user\<close> is the state of everything else: the handler, the sinks, the hook and the
  transport read and write nothing but it.
\<close>

record 'u world =
  hook_calls :: "(string \<times> py_exc) list"
  sink_calls :: "(string \<times> pyval) list"
  topic_sends :: "(string \<times> send_call) list"
  app_sends :: "app_send_call list"
  opened :: "nat list"
  next_id :: nat
  uuids :: "nat \<Rightarrow> 128 word"
  drawn :: nat
  user :: 'u

definition lift :: "('a, 'u) aw \<Rightarrow> ('a, 'u world) aw" where
  "lift a w = (case a (user w) of None \<Rightarrow> None | Some (r, u) \<Rightarrow> Some (r, w\<lparr>user := u\<rparr>))"

definition new_id :: "'u world \<Rightarrow> nat \<times> 'u world" where
  "new_id w = (next_id w, w\<lparr>next_id := Suc (next_id w)\<rparr>)"





subsection \<open>The collaborators\<close>

text \<open>
  A stream is an object of its own over a source. The topic and the application are
  known by what their \<open>send\<close> does.
\<close>

record StreamT =
  stream_id :: nat
  stream_source :: nat

record 'u TopicT =
  topic_name :: string
  topic_send :: "send_call \<Rightarrow> (pyval, 'u) aw"

record 'u AppT =
  app_send :: "app_send_call \<Rightarrow> (pyval, 'u) aw"

text \<open>
  What a handler returns is an object that may have \<open>__await__\<close> (then awaiting it runs
  \<open>resume\<close>, and \<open>throw e\<close> is what the await does when \<open>e\<close> is thrown into it while it is
  suspended), may have \<open>__aiter__\<close> (then \<open>anext\<close> pulls the next value, \<open>Inr None\<close> at the
  end of the sequence, and \<open>athrow e\<close> is what a suspended pull does when \<open>e\<close> is thrown
  into it), may have both, or neither.
\<close>

record 'u coroutine =
  resume :: "(unit, 'u) aw"
  throw :: "py_exc \<Rightarrow> (unit, 'u) aw"

record 'u async_iterator =
  anext :: "(pyval option, 'u) aw"
  athrow :: "py_exc \<Rightarrow> (pyval option, 'u) aw"

record 'u pyobj =
  type_name :: string
  await_cap :: "'u coroutine option"
  aiter_cap :: "'u async_iterator option"

text \<open>
  A sink is called with the value and returns at once, with a plain result or with an
  awaitable.
\<close>

datatype 'u sink_result = Plain | Awaitable "(unit, 'u) aw"

record 'u sink =
  sink_name :: string
  sink_call :: "pyval \<Rightarrow> 'u \<Rightarrow> (py_exc + 'u sink_result) \<times> 'u"

subsection \<open>Actor, tasks, instances, service\<close>

text \<open>
  \<open>source_cache\<close> is the slot of the cached property \<open>source\<close>. The error hook is given the
  actor (by its name) and the error.
\<close>

record 'u actor =
  name :: string
  actor_fun :: "StreamT \<Rightarrow> 'u \<Rightarrow> (py_exc + 'u pyobj) \<times> 'u"
  app :: "'u AppT"
  topic :: "'u TopicT"
  concurrency :: int
  sinks :: "'u sink list"
  on_error :: "(string \<Rightarrow> py_exc \<Rightarrow> (unit, 'u) aw) option"
  source_cache :: "nat option"

text \<open>
  The coroutine a task wraps in \<open>_execute_task\<close>: the instance itself, awaited through the
  object it holds, or \<open>_slurp\<close> over an iterator. \<open>started\<close> tells whether the event loop has
  run the first step of the task; \<open>must_cancel\<close> is set by \<open>Task.cancel()\<close>.
\<close>

datatype 'u coro = AwaitInstance "'u pyobj" | Slurp "'u async_iterator"

record 'u Task =
  task_id :: nat
  task_coro :: "'u coro"
  task_beacon :: string
  started :: bool
  must_cancel :: bool

datatype variant = AwaitableActor | AsyncIterableActor

text \<open>
  \<open>wrapped\<close> is the field \<open>coro\<close> of an \<open>AwaitableActor\<close> and the field \<open>it\<close> of an
  \<open>AsyncIterableActor\<close>; \<open>futures\<close> is what the instance, as a service, keeps track of.
\<close>

record 'u ActorInstance =
  variant :: variant
  agent :: string
  stream_of :: StreamT
  wrapped :: "'u pyobj"
  actor_task :: "'u Task option"
  index :: "int option"
  futures :: "'u Task list"

record 'u ActorService =
  actor :: "'u actor"
  instances :: "'u ActorInstance list"
  beacon :: string


subsection \<open>Actor: the source, \<open>stream\<close>, \<open>__call__\<close>\<close>

text \<open>
  \<open>aiter(self.topic)\<close> opens a new source over the topic. The cached property \<open>source\<close>
  does so on its first read and returns the object it stored on every later one.
  \<open>self.app.stream(self.source, ...)\<close> makes a new stream over that source.
\<close>

definition aiter_topic :: "'u TopicT \<Rightarrow> 'u world \<Rightarrow> nat \<times> 'u world" where
  "aiter_topic t w = (let (i, w1) = new_id w in (i, w1\<lparr>opened := opened w1 @ [i]\<rparr>))"

definition source :: "'u actor \<Rightarrow> 'u world \<Rightarrow> nat \<times> 'u actor \<times> 'u world" where
  "source self w =
     (case source_cache self of
        Some s \<Rightarrow> (s, self, w)
      | None \<Rightarrow>
          (let (s, w1) = aiter_topic (topic self) w
           in (s, self\<lparr>source_cache := Some s\<rparr>, w1)))"

definition app_stream :: "nat \<Rightarrow> 'u world \<Rightarrow> StreamT \<times> 'u world" where
  "app_stream src w = (let (i, w1) = new_id w in (\<lparr>stream_id = i, stream_source = src\<rparr>, w1))"

definition stream :: "'u actor \<Rightarrow> 'u world \<Rightarrow> StreamT \<times> 'u actor \<times> 'u world" where
  "stream self w =
     (let (src, self1, w1) = source self w;
          (st, w2) = app_stream src w1
      in (st, self1, w2))"

text \<open>\<open>isinstance(res, Awaitable)\<close>: the object has \<open>__await__\<close>.\<close>

definition is_Awaitable :: "'u pyobj \<Rightarrow> bool" where
  "is_Awaitable res = (case await_cap res of Some k \<Rightarrow> True | None \<Rightarrow> False)"

definition new_instance :: "variant \<Rightarrow> 'u actor \<Rightarrow> StreamT \<Rightarrow> 'u pyobj \<Rightarrow> 'u ActorInstance" where
  "new_instance v a st obj =
     \<lparr>variant = v, agent = name a, stream_of = st, wrapped = obj,
      actor_task = None, index = None, futures = []\<rparr>"

text \<open>\<open>Actor.__call__\<close>\<close>

definition call :: "'u actor \<Rightarrow> 'u world \<Rightarrow> (py_exc + 'u ActorInstance) \<times> 'u actor \<times> 'u world" where
  "call self w =
     (let (st, self1, w1) = stream self w
      in case actor_fun self1 st (user w1) of
           (Inl e, u) \<Rightarrow> (Inl e, self1, w1\<lparr>user := u\<rparr>)
         | (Inr res, u) \<Rightarrow>
             (if is_Awaitable res
              then (Inr (new_instance AwaitableActor self1 st res), self1, w1\<lparr>user := u\<rparr>)
              else (Inr (new_instance AsyncIterableActor self1 st res), self1, w1\<lparr>user := u\<rparr>)))"


subsection \<open>Sinks and the consumption loop\<close>






subsection \<open>Task supervision\<close>

text \<open>
  \<open>Actor._execute_task\<close>; \<open>coro\<close> is how \<open>await coro\<close> ends.
  \<^verbatim>\<open>
  try:
      await coro
  except asyncio.CancelledError:
      raise
  except Exception as exc:
      if self._on_error is not None:
          await self._on_error(self, exc)
      raise
  \<close>
\<close>

definition execute_task :: "'u actor \<Rightarrow> (unit, 'u world) aw \<Rightarrow> (unit, 'u world) aw" where
  "execute_task self coro w =
     (case coro w of
        None \<Rightarrow> None
      | Some (Inr x, w1) \<Rightarrow> Some (Inr (), w1)
      | Some (Inl exc, w1) \<Rightarrow>
          if exc = CancelledError then Some (Inl exc, w1)
          else if is_Exception exc then
            (case on_error self of
               None \<Rightarrow> Some (Inl exc, w1)
             | Some hook \<Rightarrow>
                 (case lift (hook (name self) exc)
                         (w1\<lparr>hook_calls := hook_calls w1 @ [(name self, exc)]\<rparr>) of
                    None \<Rightarrow> None
                  | Some (Inl exc', w2) \<Rightarrow> Some (Inl exc', w2)
                  | Some (Inr x, w2) \<Rightarrow> Some (Inl exc, w2)))
          else Some (Inl exc, w1))"



text \<open>
  \<open>Task.cancel()\<close> on a task that has not finished asks for \<open>CancelledError\<close> to be thrown
  into its coroutine, which is \<open>_execute_task(coro)\<close>; the event loop then runs the task to
  its end. In a task cancelled before its first step the exception is raised at the start
  of \<open>_execute_task\<close>, before its \<open>try\<close>: the wrapped coroutine is never run. In a task
  that has started, \<open>_execute_task\<close> is suspended in \<open>await coro\<close>, and the exception is
  thrown into that await.
\<close>

definition Task_cancel :: "'u Task \<Rightarrow> 'u Task" where
  "Task_cancel t = t\<lparr>must_cancel := True\<rparr>"


text \<open>
  \<open>Actor._start_task\<close>. \<open>aiter(res)\<close> on an \<open>AsyncIterableActor\<close> is \<open>res.it.__aiter__()\<close>,
  which an object without \<open>__aiter__\<close> does not have.
\<close>

definition aiter_instance :: "'u ActorInstance \<Rightarrow> py_exc + 'u async_iterator" where
  "aiter_instance res = (case aiter_cap (wrapped res) of Some it \<Rightarrow> Inr it | None \<Rightarrow> Inl AttributeError)"

definition start_task :: "'u actor \<Rightarrow> int \<Rightarrow> string \<Rightarrow> 'u world \<Rightarrow> (py_exc + 'u ActorInstance) \<times> 'u actor \<times> 'u world" where
  "start_task self idx bcn w =
     (case call self w of
        (Inl e, self1, w1) \<Rightarrow> (Inl e, self1, w1)
      | (Inr res, self1, w1) \<Rightarrow>
          (case (case variant res of
                   AwaitableActor \<Rightarrow> Inr (AwaitInstance (wrapped res))
                 | AsyncIterableActor \<Rightarrow>
                     (case aiter_instance res of Inl e \<Rightarrow> Inl e | Inr it \<Rightarrow> Inr (Slurp it))) of
             Inl e \<Rightarrow> (Inl e, self1, w1)
           | Inr coro \<Rightarrow>
               (let (i, w2) = new_id w1;
                    task = \<lparr>task_id = i, task_coro = coro, task_beacon = bcn, started = False,
                            must_cancel = False\<rparr>
                in (Inr (res\<lparr>actor_task := Some task, index := Some idx\<rparr>), self1, w2))))"

subsection \<open>ActorInstance and ActorService\<close>

text \<open>
  Modelled from the spec: \<open>add_future\<close>, \<open>start\<close> and \<open>stop\<close> belong to the Service contract
  (faust.utils.services): \<open>add_future\<close> registers a task with the service so that its
  completion or failure is observable, \<open>start\<close> runs \<open>on_start\<close> and \<open>stop\<close> runs
  \<open>on_stop\<close>.
\<close>

definition add_future :: "'u Task \<Rightarrow> 'u ActorInstance \<Rightarrow> 'u ActorInstance" where
  "add_future t self = self\<lparr>futures := futures self @ [t]\<rparr>"

text \<open>\<open>ActorInstance.on_start\<close>: \<open>assert self.actor_task; self.add_future(self.actor_task)\<close>\<close>

definition ActorInstance_on_start :: "'u ActorInstance \<Rightarrow> (py_exc + unit) \<times> 'u ActorInstance" where
  "ActorInstance_on_start self =
     (case actor_task self of
        None \<Rightarrow> (Inl AssertionError, self)
      | Some t \<Rightarrow> (Inr (), add_future t self))"

text \<open>\<open>ActorInstance.cancel\<close> and \<open>ActorInstance.on_stop\<close>\<close>

definition cancel :: "'u ActorInstance \<Rightarrow> 'u ActorInstance" where
  "cancel self =
     (case actor_task self of
        None \<Rightarrow> self
      | Some t \<Rightarrow> self\<lparr>actor_task := Some (Task_cancel t)\<rparr>)"

definition ActorInstance_on_stop :: "'u ActorInstance \<Rightarrow> 'u ActorInstance" where
  "ActorInstance_on_stop self = cancel self"


definition stop :: "'u ActorInstance \<Rightarrow> 'u ActorInstance" where
  "stop self = ActorInstance_on_stop self"




definition ActorService_on_stop :: "'u ActorService \<Rightarrow> 'u ActorService" where
  "ActorService_on_stop self = self\<lparr>instances := map stop (instances self)\<rparr>"

subsection \<open>Sending: \<open>send\<close>, \<open>cast\<close>, \<open>ask\<close>, \<open>reply\<close>\<close>

definition Topic_send :: "'u TopicT \<Rightarrow> send_call \<Rightarrow> (pyval, 'u world) aw" where
  "Topic_send t c w = lift (topic_send t c) (w\<lparr>topic_sends := topic_sends w @ [(topic_name t, c)]\<rparr>)"

definition App_send :: "'u AppT \<Rightarrow> app_send_call \<Rightarrow> (pyval, 'u world) aw" where
  "App_send a c w = lift (app_send a c) (w\<lparr>app_sends := app_sends w @ [c]\<rparr>)"

definition send :: "'u actor \<Rightarrow> pyval \<Rightarrow> payload \<Rightarrow> int option \<Rightarrow> codec_arg option \<Rightarrow> codec_arg option \<Rightarrow> bool \<Rightarrow> (pyval, 'u world) aw" where
  "send self key val partn key_serializer value_serializer wait =
     Topic_send (topic self)
       \<lparr>sc_key = key, sc_value = val, sc_partition = partn,
        sc_key_serializer = key_serializer, sc_value_serializer = value_serializer,
        sc_wait = wait\<rparr>"

definition cast :: "'u actor \<Rightarrow> pyval \<Rightarrow> payload \<Rightarrow> int option \<Rightarrow> (unit, 'u world) aw" where
  "cast self key val partn w =
     (case send self key val partn None None True w of
        None \<Rightarrow> None
      | Some (Inl e, w1) \<Rightarrow> Some (Inl e, w1)
      | Some (Inr x, w1) \<Rightarrow> Some (Inr (), w1))"


text \<open>
  \<open>Actor.reply\<close>. \<open>value._options.namespace\<close> is read while the arguments of \<open>app.send\<close> are
  built; only a model instance has \<open>_options\<close>.
\<close>

definition reply :: "'u actor \<Rightarrow> pyval \<Rightarrow> pyval \<Rightarrow> ReqRepRequest \<Rightarrow> (unit, 'u world) aw" where
  "reply self key val req w =
     (case val of
        PyModel ns fs \<Rightarrow>
          (case App_send (app self)
                  \<lparr>as_channel = req_reply_to req, as_key = key,
                   as_value = Response \<lparr>resp_namespace = ns, resp_value = val,
                                        resp_correlation_id = req_correlation_id req\<rparr>\<rparr> w of
             None \<Rightarrow> None
           | Some (Inl e, w1) \<Rightarrow> Some (Inl e, w1)
           | Some (Inr x, w1) \<Rightarrow> Some (Inr (), w1))
      | _ \<Rightarrow> Some (Inl AttributeError, w))"

subsection \<open>Envelopes as mappings\<close>



definition response_mapping :: "ReqRepResponse \<Rightarrow> pyval" where
  "response_mapping resp =
     PyDict [(''namespace'', PyStr (resp_namespace resp)),
             (''value'', resp_value resp),
             (''correlation_id'', PyStr (resp_correlation_id resp))]"

section \<open>Example configurations\<close>


text \<open>
  A world in which nothing has happened yet, whose user state is a counter and whose
  \<open>uuid4\<close> always draws zero; a topic and an application whose \<open>send\<close> succeeds.
\<close>

definition world0 :: "nat world" where
  "world0 =
     \<lparr>hook_calls = [], sink_calls = [], topic_sends = [], app_sends = [], opened = [],
      next_id = 0, uuids = (\<lambda>n. 0), drawn = 0, user = 0\<rparr>"

definition demo_topic :: "nat TopicT" where
  "demo_topic = \<lparr>topic_name = ''demo-topic'', topic_send = (\<lambda>c u. Some (Inr PyNone, u))\<rparr>"

definition demo_app :: "nat AppT" where
  "demo_app = \<lparr>app_send = (\<lambda>c u. Some (Inr PyNone, u))\<rparr>"

text \<open>
  What a handler may return: a coroutine that returns at once and lets an exception thrown
  into it through; a coroutine that answers a thrown exception with an error of its own;
  an async generator that counts the user state down; an object that is awaitable and an
  async sequence at once.
\<close>

definition coroutine_obj :: "nat pyobj" where
  "coroutine_obj =
     \<lparr>type_name = ''coroutine'',
      await_cap = Some \<lparr>resume = (\<lambda>u. Some (Inr (), u)), throw = (\<lambda>e u. Some (Inl e, u))\<rparr>,
      aiter_cap = None\<rparr>"





text \<open>
  An actor of concurrency 3 whose handler returns the given object and whose error hook
  counts its calls in the user state; the same actor with a hook that fails, and with a
  handler that raises when it is called.
\<close>

definition demo_actor :: "nat pyobj \<Rightarrow> nat actor" where
  "demo_actor obj =
     \<lparr>name = ''demo'', actor_fun = (\<lambda>st u. (Inr obj, u)), app = demo_app, topic = demo_topic,
      concurrency = 3, sinks = [],
      on_error = Some (\<lambda>a e u. Some (Inr (), Suc u)), source_cache = None\<rparr>"

definition failing_hook_actor :: "nat actor" where
  "failing_hook_actor =
     (demo_actor coroutine_obj)\<lparr>on_error := Some (\<lambda>a e u. Some (Inl (Error ''hook failed''), u))\<rparr>"



definition demo_task :: "nat pyobj \<Rightarrow> nat Task" where
  "demo_task obj =
     \<lparr>task_id = 2, task_coro = AwaitInstance obj, task_beacon = ''root'', started = False,
      must_cancel = False\<rparr>"

definition demo_instance :: "nat pyobj \<Rightarrow> nat ActorInstance" where
  "demo_instance obj =
     (new_instance AwaitableActor (demo_actor obj) \<lparr>stream_id = 1, stream_source = 0\<rparr> obj)
       \<lparr>actor_task := Some (demo_task obj), index := Some 0\<rparr>"




section \<open>Properties\<close>

subsection \<open>Base64 and the codecs\<close>



























text \<open>
  Claim C10. Without a codec (\<open>None\<close>) the module-level \<open>dumps\<close> returns the object and
  \<open>loads\<close> returns the byte string, unchanged, and the registry is not touched.
\<close>

theorem dumps_loads_no_codec:
  "dumps lib None obj m = (Inr obj, m) \<and> loads lib None s m = (Inr s, m)"
  by (simp add: dumps_def loads_def)

subsection \<open>Invoking the actor\<close>

lemma stream_eq:
  "stream self w =
    (case source_cache self of
       Some s \<Rightarrow>
         (\<lparr>stream_id = next_id w, stream_source = s\<rparr>, self, w\<lparr>next_id := Suc (next_id w)\<rparr>)
     | None \<Rightarrow>
         (\<lparr>stream_id = Suc (next_id w), stream_source = next_id w\<rparr>,
          self\<lparr>source_cache := Some (next_id w)\<rparr>,
          w\<lparr>opened := opened w @ [next_id w], next_id := Suc (Suc (next_id w))\<rparr>))"
  by (simp add: stream_def source_def app_stream_def aiter_topic_def new_id_def Let_def
      split: option.splits)





subsection \<open>Starting the replicas\<close>












subsection \<open>Sinks\<close>







subsection \<open>Task supervision\<close>





text \<open>
  Claim C2, as the code has it. An error is an exception that derives from \<open>Exception\<close>.
  When the wrapped computation raises one that is not a cancellation: without a hook it is
  re-raised as it is; with a hook, the hook is invoked exactly once, with the actor and
  the error, and awaited, and the task does not end before the hook does; when the hook
  returns, the original error is re-raised; when the hook itself raises, what it raised
  is raised in place of the original error. Either way the task ends failed.
\<close>

theorem execute_task_error_hook:
  assumes "coro w = Some (Inl exc, w1)" and "exc \<noteq> CancelledError" and "is_Exception exc"
  shows "(on_error self = None \<longrightarrow> execute_task self coro w = Some (Inl exc, w1))
    \<and> (\<forall>hook u. on_error self = Some hook
          \<longrightarrow> hook (name self) exc (user w1) = Some (Inr (), u)
          \<longrightarrow> execute_task self coro w =
                Some (Inl exc, w1\<lparr>hook_calls := hook_calls w1 @ [(name self, exc)], user := u\<rparr>))
    \<and> (\<forall>hook e u. on_error self = Some hook
          \<longrightarrow> hook (name self) exc (user w1) = Some (Inl e, u)
          \<longrightarrow> execute_task self coro w =
                Some (Inl e, w1\<lparr>hook_calls := hook_calls w1 @ [(name self, exc)], user := u\<rparr>))
    \<and> (\<forall>hook. on_error self = Some hook
          \<longrightarrow> hook (name self) exc (user w1) = None
          \<longrightarrow> execute_task self coro w = None)
    \<and> (\<forall>hook r w2. on_error self = Some hook
          \<longrightarrow> execute_task self coro w = Some (r, w2)
          \<longrightarrow> (\<exists>e. r = Inl e) \<and> hook_calls w2 = hook_calls w1 @ [(name self, exc)])"
  using assms
  by (auto simp: execute_task_def lift_def split: option.splits sum.splits)

theorem execute_task_error_hook_witness:
  "execute_task (demo_actor coroutine_obj) (\<lambda>w. Some (Inl (Error ''boom''), w)) world0
   = Some (Inl (Error ''boom''), world0\<lparr>hook_calls := [(''demo'', Error ''boom'')], user := 1\<rparr>)"
proof -
  have a: "(\<lambda>w. Some (Inl (Error ''boom''), w)) world0 = Some (Inl (Error ''boom''), world0)"
    by simp
  have b: "Error ''boom'' \<noteq> CancelledError" by simp
  have c: "is_Exception (Error ''boom'')" by simp
  have h: "on_error (demo_actor coroutine_obj) = Some (\<lambda>a e u. Some (Inr (), Suc u))"
    by (simp add: demo_actor_def)
  have r: "(\<lambda>a e u. Some (Inr (), Suc u)) (name (demo_actor coroutine_obj)) (Error ''boom'')
             (user world0) = Some (Inr (), 1)"
    by (simp add: world0_def)
  note T = execute_task_error_hook[where coro = "\<lambda>w. Some (Inl (Error ''boom''), w)"
      and w = world0 and ?w1.0 = world0 and exc = "Error ''boom''"
      and self = "demo_actor coroutine_obj", OF a b c]
  from T[THEN conjunct2, THEN conjunct1, rule_format, OF h r]
  have "execute_task (demo_actor coroutine_obj) (\<lambda>w. Some (Inl (Error ''boom''), w)) world0
        = Some (Inl (Error ''boom''),
            world0\<lparr>hook_calls := hook_calls world0 @ [(name (demo_actor coroutine_obj), Error ''boom'')],
                    user := 1\<rparr>)" .
  then show ?thesis by (simp add: world0_def demo_actor_def)
qed

text \<open>
  Claim C2, as it is stated, fails when the hook itself raises: the task ends with the
  hook's error, not with the original one.
\<close>

theorem execute_task_failing_hook_counterexample:
  "execute_task failing_hook_actor (\<lambda>w. Some (Inl (Error ''boom''), w)) world0
     = Some (Inl (Error ''hook failed''), world0\<lparr>hook_calls := [(''demo'', Error ''boom'')]\<rparr>)
   \<and> Error ''hook failed'' \<noteq> Error ''boom''"
  by (simp add: execute_task_def failing_hook_actor_def demo_actor_def lift_def world0_def)




subsection \<open>Starting an instance\<close>

text \<open>
  Claim C9. \<open>ActorInstance.on_start\<close> on an instance without a task fails its assertion
  and registers nothing; on an instance with a task it registers that task with the
  service and returns. An instance that \<open>_start_task\<close> returned has a task, so its
  \<open>on_start\<close> returns, with the task registered.
\<close>

theorem on_start_task_handle:
  "(actor_task inst = None \<longrightarrow> ActorInstance_on_start inst = (Inl AssertionError, inst))
   \<and> (\<forall>t. actor_task inst = Some t
        \<longrightarrow> ActorInstance_on_start inst = (Inr (), inst\<lparr>futures := futures inst @ [t]\<rparr>))
   \<and> (start_task self idx bcn w = (Inr inst', self', w')
        \<longrightarrow> (\<exists>t. actor_task inst' = Some t
               \<and> ActorInstance_on_start inst' = (Inr (), inst'\<lparr>futures := [t]\<rparr>)))"
  by (auto simp: ActorInstance_on_start_def add_future_def start_task_def call_def Let_def
      new_instance_def new_id_def
      split: prod.splits sum.splits variant.splits if_splits)

theorem on_start_task_handle_witness:
  "ActorInstance_on_start (new_instance AwaitableActor (demo_actor coroutine_obj)
       \<lparr>stream_id = 1, stream_source = 0\<rparr> coroutine_obj)
     = (Inl AssertionError, new_instance AwaitableActor (demo_actor coroutine_obj)
       \<lparr>stream_id = 1, stream_source = 0\<rparr> coroutine_obj)
   \<and> fst (start_task (demo_actor coroutine_obj) 0 ''root'' world0)
       = Inr (demo_instance coroutine_obj)
   \<and> ActorInstance_on_start (demo_instance coroutine_obj)
       = (Inr (), (demo_instance coroutine_obj)\<lparr>futures := [demo_task coroutine_obj]\<rparr>)"
proof -
  let ?i = "new_instance AwaitableActor (demo_actor coroutine_obj)
       \<lparr>stream_id = 1, stream_source = 0\<rparr> coroutine_obj"
  let ?d = "demo_instance coroutine_obj"
  have n: "actor_task ?i = None" by (simp add: new_instance_def)
  obtain r a w where st: "start_task (demo_actor coroutine_obj) 0 ''root'' world0 = (r, a, w)"
    by (cases "start_task (demo_actor coroutine_obj) 0 ''root'' world0")
  have r: "r = Inr ?d"
    using st
    by (simp add: start_task_def call_def stream_eq demo_actor_def world0_def is_Awaitable_def
        coroutine_obj_def new_instance_def new_id_def demo_instance_def demo_task_def
        numeral_2_eq_2)
  from on_start_task_handle[of ?i, THEN conjunct1, rule_format, OF n]
  have 1: "ActorInstance_on_start ?i = (Inl AssertionError, ?i)" .
  from st r have "start_task (demo_actor coroutine_obj) 0 ''root'' world0 = (Inr ?d, a, w)"
    by simp
  from on_start_task_handle[of _ "demo_actor coroutine_obj" 0 "''root''" world0 ?d a w,
      THEN conjunct2, THEN conjunct2, rule_format, OF this]
  obtain t where t: "actor_task ?d = Some t"
    "ActorInstance_on_start ?d = (Inr (), ?d\<lparr>futures := [t]\<rparr>)"
    by (elim exE conjE) (rule that)
  have "t = demo_task coroutine_obj" using t(1) by (simp add: demo_instance_def)
  with 1 t(2) st r show ?thesis by simp
qed

subsection \<open>Requests and replies\<close>









text \<open>
  Claim C7 does not hold of the code. \<open>reply\<close> reads \<open>value._options\<close> without the check
  that \<open>ask\<close> makes, so for a value that is not a model instance, such as the string
  \<open>'pong'\<close>, it raises \<open>AttributeError\<close> and nothing is sent. For a model instance the
  Response envelope is as the claim says.
\<close>

theorem reply_plain_value_raises:
  "reply self key (PyStr ''pong'') req w = Some (Inl AttributeError, w)"
  by (simp add: reply_def)

lemma reply_model_value:
  "reply self key (PyModel ns fs) req w = Some (r, w')
   \<Longrightarrow> app_sends w' = app_sends w @
         [\<lparr>as_channel = req_reply_to req, as_key = key,
           as_value = Response \<lparr>resp_namespace = ns, resp_value = PyModel ns fs,
                                resp_correlation_id = req_correlation_id req\<rparr>\<rparr>]"
  by (auto simp: reply_def App_send_def lift_def split: option.splits sum.splits prod.splits)


end
